theory Spec2Isabelle
  imports Main
begin

section \<open>JavaScript values and containers used by the room layer\<close>

text \<open>
  The room layer handles three kinds of JavaScript values: strings (room identifiers,
  socket identifiers, display names, chat text), the value \<open>undefined\<close> (a missing
  argument or a missing field of a payload object), and plain objects decoded from the
  wire. Identifiers are strings or missing, as in the data model of the specification;
  numbers, booleans, \<open>null\<close> and arrays as identifiers are outside the model.
\<close>

datatype jsval = Undefined | Str string

text \<open>
  \<open>a || b\<close>: the left operand when it is truthy, the right one otherwise. \<open>undefined\<close>
  and the empty string are falsy; every other string is truthy.
\<close>

fun truthy :: "jsval \<Rightarrow> bool" where
  "truthy Undefined = False"
| "truthy (Str s) = (s \<noteq> [])"

definition js_or :: "jsval \<Rightarrow> jsval \<Rightarrow> jsval" where
  "js_or a b = (if truthy a then a else b)"

text \<open>
  A value used as a property name of an object is converted to a string:
  \<open>rooms[undefined]\<close> reads the property named \<open>undefined\<close>.
\<close>

fun toPropertyKey :: "jsval \<Rightarrow> string" where
  "toPropertyKey Undefined = ''undefined''"
| "toPropertyKey (Str s) = s"

text \<open>
  A payload object is a finite list of named fields; reading a field that is not there
  gives \<open>undefined\<close>. The field names read by the handlers (\<open>roomId\<close>, \<open>message\<close>,
  \<open>sender\<close>) are not names of \<open>Object.prototype\<close>, so the lookup stops at the own
  fields.
\<close>

type_synonym obj = "(string \<times> jsval) list"

definition get_field :: "obj \<Rightarrow> string \<Rightarrow> jsval" where
  "get_field ob k = (case map_of ob k of None \<Rightarrow> Undefined | Some v \<Rightarrow> v)"

text \<open>
  A JavaScript \<open>Set\<close>: its elements without repetition, in insertion order (the order
  in which \<open>Array.from\<close> and the spread syntax enumerate them). \<open>add\<close> of an element
  that is already there changes nothing; \<open>delete\<close> removes the element if present.
\<close>

typedef 'a jsset = "{xs :: 'a list. distinct xs}"
  morphisms elems Abs_jsset
proof
  show "[] \<in> {xs :: 'a list. distinct xs}" by simp
qed

setup_lifting type_definition_jsset

lift_definition set_new :: "'a jsset" is "[]"
  by simp

lift_definition set_add :: "'a \<Rightarrow> 'a jsset \<Rightarrow> 'a jsset"
  is "\<lambda>x xs. if x \<in> set xs then xs else xs @ [x]"
  by simp

lift_definition set_delete :: "'a \<Rightarrow> 'a jsset \<Rightarrow> 'a jsset"
  is "\<lambda>x xs. removeAll x xs"
  by (simp add: distinct_removeAll)

definition set_size :: "'a jsset \<Rightarrow> nat" where
  "set_size s = length (elems s)"

section \<open>rooms.js: the room registry\<close>

text \<open>
  \<open>const rooms = {}\<close> is a plain object used as a dictionary from room identifier to a
  \<open>Set\<close> of socket identifiers. The registry state is the collection of its own
  properties. A plain object inherits from \<open>Object.prototype\<close>, so \<open>rooms[roomId]\<close> is
  the own property when there is one, otherwise the member of \<open>Object.prototype\<close> of
  that name when there is one, otherwise \<open>undefined\<close>.

  \<open>objectPrototype\<close> lists the members of \<open>Object.prototype\<close> in Node.js, each with the
  \<open>length\<close> that \<open>Array.from\<close> reads from the inherited value: the arity of the function
  (\<open>Object\<close> for \<open>constructor\<close> has length 1), and 0 for \<open>__proto__\<close>, whose value
  \<open>Object.prototype\<close> has no \<open>length\<close>. None of the inherited values has an \<open>add\<close> or
  a \<open>delete\<close> method, and none is iterable.
\<close>

type_synonym registry = "string \<rightharpoonup> string jsset"

definition objectPrototype :: "(string \<times> nat) list" where
  "objectPrototype =
    [(''constructor'', 1), (''__defineGetter__'', 2), (''__defineSetter__'', 2),
     (''hasOwnProperty'', 1), (''__lookupGetter__'', 1), (''__lookupSetter__'', 1),
     (''isPrototypeOf'', 1), (''propertyIsEnumerable'', 1), (''toString'', 0),
     (''valueOf'', 0), (''__proto__'', 0), (''toLocaleString'', 0)]"

definition inherited :: "string \<Rightarrow> bool" where
  "inherited k = (map_of objectPrototype k \<noteq> None)"

datatype property = Absent | Own "string jsset" | Inherited nat

definition get_prop :: "registry \<Rightarrow> string \<Rightarrow> property" where
  "get_prop rooms roomId =
    (case rooms roomId of
       Some s \<Rightarrow> Own s
     | None \<Rightarrow> (case map_of objectPrototype roomId of
                  Some n \<Rightarrow> Inherited n
                | None \<Rightarrow> Absent))"

text \<open>
  A call either returns or throws; in both cases the registry is left as the statements
  executed so far have made it. Calling a method that the receiver does not have
  (\<open>rooms[roomId].add\<close> on an inherited function) and reading a field of \<open>undefined\<close>
  throw a \<open>TypeError\<close>.
\<close>

datatype error = TypeError

datatype completion = Normal | Throw error

text \<open>
  \<^verbatim>\<open>function addUserToRoom(roomId, socketId) {
    if (!rooms[roomId]) rooms[roomId] = new Set();
    rooms[roomId].add(socketId);
  }\<close>
  A \<open>Set\<close> and every inherited value are truthy, so the guard creates the entry exactly
  when the lookup gives \<open>undefined\<close>.
\<close>

definition addUserToRoom :: "registry \<Rightarrow> string \<Rightarrow> string \<Rightarrow> completion \<times> registry" where
  "addUserToRoom rooms roomId socketId =
    (let rooms1 = (if get_prop rooms roomId = Absent then rooms(roomId \<mapsto> set_new) else rooms)
     in case get_prop rooms1 roomId of
          Own s \<Rightarrow> (Normal, rooms1(roomId \<mapsto> set_add socketId s))
        | Inherited n \<Rightarrow> (Throw TypeError, rooms1)
        | Absent \<Rightarrow> (Throw TypeError, rooms1))"

text \<open>
  \<^verbatim>\<open>function removeUserFromRoom(roomId, socketId) {
    if (rooms[roomId]) {
      rooms[roomId].delete(socketId);
      if (rooms[roomId].size === 0) {
        delete rooms[roomId]; // Clean up empty rooms
      }
    }
  }\<close>
\<close>

definition removeUserFromRoom :: "registry \<Rightarrow> string \<Rightarrow> string \<Rightarrow> completion \<times> registry" where
  "removeUserFromRoom rooms roomId socketId =
    (case get_prop rooms roomId of
       Absent \<Rightarrow> (Normal, rooms)
     | Inherited n \<Rightarrow> (Throw TypeError, rooms)
     | Own s \<Rightarrow>
         (let s1 = set_delete socketId s
          in if set_size s1 = 0 then (Normal, rooms(roomId := None))
             else (Normal, rooms(roomId \<mapsto> s1))))"

text \<open>
  \<^verbatim>\<open>function getUsersInRoom(roomId) {
    return rooms[roomId] ? Array.from(rooms[roomId]) : [];
  }\<close>
  \<open>Array.from\<close> of a \<open>Set\<close> lists its elements; of an inherited value, which is not
  iterable, it builds an array of the value's \<open>length\<close> whose entries are all
  \<open>undefined\<close>. The function only reads the registry.
\<close>

definition getUsersInRoom :: "registry \<Rightarrow> string \<Rightarrow> jsval list" where
  "getUsersInRoom rooms roomId =
    (case get_prop rooms roomId of
       Absent \<Rightarrow> []
     | Own s \<Rightarrow> map Str (elems s)
     | Inherited n \<Rightarrow> replicate n Undefined)"

text \<open>\<open>const rooms = {}\<close>: the registry the module starts with has no own property.\<close>

definition initial_rooms :: registry where
  "initial_rooms = Map.empty"

text \<open>The registry's enumerable keys (\<open>Object.keys(rooms)\<close>): its own properties.\<close>

definition room_keys :: "registry \<Rightarrow> string set" where
  "room_keys rooms = dom rooms"

text \<open>
  The registry states the program can be in: the empty object the module starts with,
  and whatever a call of \<open>addUserToRoom\<close> or \<open>removeUserFromRoom\<close> leaves behind,
  whether it returned or threw.
\<close>

inductive reachable :: "registry \<Rightarrow> bool" where
  reachable_init: "reachable initial_rooms"
| reachable_add: "reachable rooms \<Longrightarrow> reachable (snd (addUserToRoom rooms roomId socketId))"
| reachable_remove: "reachable rooms \<Longrightarrow> reachable (snd (removeUserFromRoom rooms roomId socketId))"

definition nonempty_rooms :: "registry \<Rightarrow> bool" where
  "nonempty_rooms rooms = (\<forall>roomId s. rooms roomId = Some s \<longrightarrow> set_size s \<noteq> 0)"

section \<open>The transport: sockets, rooms and broadcasts\<close>

text \<open>
  The handlers of server.js talk to the Socket.IO transport, which is not part of the
  repository. Its state is modelled as far as the handlers use it: the sockets that are
  connected, and for each socket the \<open>Set\<close> \<open>socket.rooms\<close> of the transport rooms it
  is subscribed to. A transport room is named by any value, \<open>undefined\<close> included; a
  socket is subscribed to the room named by its own identifier from the moment it
  connects, and any other socket may join that room as well.

  \<open>io.in(room).emit\<close> delivers to every subscriber of the room. \<open>socket.to(room).emit\<close>
  delivers to the subscribers of the room except the sockets subscribed to the room
  named by the emitting socket's identifier: the emitting socket itself, and every
  socket that has joined that room. Every emit is recorded with the room it addresses,
  the room it excepts (\<open>em_except\<close>, the emitting socket's identifier for \<open>socket.to\<close>,
  none for \<open>io.in\<close>), its event name, its payload, and the sockets it is delivered to
  at that moment. This is the interface
  \<open>broadcastToRoom(room, eventKind, payload, excludeSessionId?)\<close> of the specification.
\<close>

datatype payload = PValue jsval | PArray "jsval list" | PObject obj

record emission =
  em_event :: string
  em_room :: jsval
  em_except :: "string option"
  em_body :: payload
  em_to :: "string list"

record world =
  rooms :: registry
  connected :: "string list"
  socket_rooms :: "string \<Rightarrow> jsval jsset"
  sent :: "emission list"

definition init_world :: world where
  "init_world = \<lparr>rooms = initial_rooms, connected = [], socket_rooms = (\<lambda>sid. set_new), sent = []\<rparr>"

definition in_room :: "world \<Rightarrow> jsval \<Rightarrow> string list" where
  "in_room w roomId = filter (\<lambda>sid. roomId \<in> set (elems (socket_rooms w sid))) (connected w)"

definition socket_join :: "world \<Rightarrow> string \<Rightarrow> jsval \<Rightarrow> world" where
  "socket_join w sid roomId =
    w\<lparr>socket_rooms := (socket_rooms w)(sid := set_add roomId (socket_rooms w sid))\<rparr>"

definition socket_to_emit :: "world \<Rightarrow> string \<Rightarrow> jsval \<Rightarrow> string \<Rightarrow> payload \<Rightarrow> world" where
  "socket_to_emit w sid roomId ev body =
    w\<lparr>sent := sent w @
      [\<lparr>em_event = ev, em_room = roomId, em_except = Some sid, em_body = body,
        em_to = filter (\<lambda>m. Str sid \<notin> set (elems (socket_rooms w m))) (in_room w roomId)\<rparr>]\<rparr>"

definition io_in_emit :: "world \<Rightarrow> jsval \<Rightarrow> string \<Rightarrow> payload \<Rightarrow> world" where
  "io_in_emit w roomId ev body =
    w\<lparr>sent := sent w @
      [\<lparr>em_event = ev, em_room = roomId, em_except = None, em_body = body,
        em_to = in_room w roomId\<rparr>]\<rparr>"

text \<open>
  \<open>io.on('connection', (socket) => ...)\<close>: the transport has created the socket and
  subscribed it to its own room; the callback registers the handlers below and writes a
  log line.
\<close>

definition connection :: "world \<Rightarrow> string \<Rightarrow> world" where
  "connection w sid =
    w\<lparr>connected := (if sid \<in> set (connected w) then connected w else connected w @ [sid]),
      socket_rooms := (socket_rooms w)(sid := set_add (Str sid) set_new)\<rparr>"

text \<open>
  \<open>new Date().toISOString()\<close>: the reading of the server's clock, written as
  \<open>YYYY-MM-DDTHH:mm:ss.sssZ\<close> (years 0 to 9999). The clock is an input of the handler.
\<close>

record date =
  year :: nat
  month :: nat
  day :: nat
  hours :: nat
  minutes :: nat
  seconds :: nat
  milliseconds :: nat

definition digit :: "nat \<Rightarrow> char" where
  "digit n = ''0123456789'' ! (n mod 10)"

definition pad :: "nat \<Rightarrow> nat \<Rightarrow> string" where
  "pad k n = map (\<lambda>i. digit (n div 10 ^ i)) (rev [0..<k])"

definition toISOString :: "date \<Rightarrow> string" where
  "toISOString d =
    pad 4 (year d) @ ''-'' @ pad 2 (month d) @ ''-'' @ pad 2 (day d) @ ''T'' @
    pad 2 (hours d) @ '':'' @ pad 2 (minutes d) @ '':'' @ pad 2 (seconds d) @ ''.'' @
    pad 3 (milliseconds d) @ ''Z''"

section \<open>server.js: the event handlers\<close>

text \<open>
  Each handler takes the world and the identifier \<open>socket.id\<close> of the socket the event
  arrived on, and gives back how it completed and the world it left. The repository
  holds four copies of the server file; the handlers for \<open>join-room\<close>, \<open>chat-message\<close>
  and the three signaling events are the same in all of them, the handler for
  \<open>disconnecting\<close> is not. The \<open>console.log\<close> lines have no effect on the world and
  are left out.

  \<^verbatim>\<open>socket.on('join-room', (roomId, username) => {
    socket.join(roomId);
    addUserToRoom(roomId, socket.id);
    socket.to(roomId).emit('user-joined', username || socket.id);
    io.in(roomId).emit('room-users', getUsersInRoom(roomId));
  });\<close>
\<close>

definition on_join_room :: "world \<Rightarrow> string \<Rightarrow> jsval \<Rightarrow> jsval \<Rightarrow> completion \<times> world" where
  "on_join_room w sid roomId username =
    (let w1 = socket_join w sid roomId
     in case addUserToRoom (rooms w1) (toPropertyKey roomId) sid of
          (Throw e, reg) \<Rightarrow> (Throw e, w1\<lparr>rooms := reg\<rparr>)
        | (Normal, reg) \<Rightarrow>
            (let w2 = w1\<lparr>rooms := reg\<rparr>;
                 w3 = socket_to_emit w2 sid roomId ''user-joined''
                        (PValue (js_or username (Str sid)));
                 w4 = io_in_emit w3 roomId ''room-users''
                        (PArray (getUsersInRoom (rooms w3) (toPropertyKey roomId)))
             in (Normal, w4)))"

text \<open>
  \<^verbatim>\<open>socket.on('chat-message', ({ roomId, message, sender }) => {
    io.in(roomId).emit('chat-message', {
      sender: sender || 'Anonymous',
      message,
      timestamp: new Date().toISOString(),
    });
  });\<close>
  The payload is \<open>None\<close> when the client sent the event without one; destructuring
  \<open>undefined\<close> throws.
\<close>

definition on_chat_message :: "world \<Rightarrow> date \<Rightarrow> obj option \<Rightarrow> completion \<times> world" where
  "on_chat_message w now data =
    (case data of
       None \<Rightarrow> (Throw TypeError, w)
     | Some ob \<Rightarrow>
         (Normal, io_in_emit w (get_field ob ''roomId'') ''chat-message''
            (PObject [(''sender'', js_or (get_field ob ''sender'') (Str ''Anonymous'')),
                      (''message'', get_field ob ''message''),
                      (''timestamp'', Str (toISOString now))])))"

text \<open>
  \<^verbatim>\<open>socket.on('offer', (data) => socket.to(data.roomId).emit('offer', data));
  socket.on('answer', (data) => socket.to(data.roomId).emit('answer', data));
  socket.on('ice-candidate', (data) => socket.to(data.roomId).emit('ice-candidate', data));\<close>
  \<open>listens_on\<close> is the name each of the three listeners is registered under, the first
  argument of \<open>socket.on\<close>; \<open>on_signaling\<close> is what the listener does, with the name
  it passes to \<open>emit\<close>. Reading \<open>data.roomId\<close> throws when the event came without a
  payload.
\<close>

datatype signaling = Offer | Answer | IceCandidate

fun listens_on :: "signaling \<Rightarrow> string" where
  "listens_on Offer = ''offer''"
| "listens_on Answer = ''answer''"
| "listens_on IceCandidate = ''ice-candidate''"

fun on_signaling :: "signaling \<Rightarrow> world \<Rightarrow> string \<Rightarrow> obj option \<Rightarrow> completion \<times> world" where
  "on_signaling Offer w sid data =
    (case data of
       None \<Rightarrow> (Throw TypeError, w)
     | Some ob \<Rightarrow> (Normal, socket_to_emit w sid (get_field ob ''roomId'') ''offer'' (PObject ob)))"
| "on_signaling Answer w sid data =
    (case data of
       None \<Rightarrow> (Throw TypeError, w)
     | Some ob \<Rightarrow> (Normal, socket_to_emit w sid (get_field ob ''roomId'') ''answer'' (PObject ob)))"
| "on_signaling IceCandidate w sid data =
    (case data of
       None \<Rightarrow> (Throw TypeError, w)
     | Some ob \<Rightarrow>
         (Normal, socket_to_emit w sid (get_field ob ''roomId'') ''ice-candidate'' (PObject ob)))"

text \<open>
  In server.js:
  \<^verbatim>\<open>socket.on('disconnecting', () => {
    const rooms = [...socket.rooms].filter((r) => r !== socket.id);
    rooms.forEach((roomId) => {
      removeUserFromRoom(roomId, socket.id);
      socket.to(roomId).emit('user-left', socket.id);
      io.in(roomId).emit('room-users', getUsersInRoom(roomId));
    });
  });\<close>
  In the three other copies of the server file the callback has no \<open>room-users\<close> line:
  \<^verbatim>\<open>    rooms.forEach((roomId) => {
      removeUserFromRoom(roomId, socket.id);
      socket.to(roomId).emit('user-left', socket.id);
    });\<close>
  The argument \<open>roster\<close> says which copy runs: \<open>True\<close> for server.js, \<open>False\<close> for the
  others. \<open>leave_rooms\<close> is the \<open>forEach\<close>; a throw in the callback ends it.
  While the handler runs, the disconnecting socket is still subscribed to its rooms, so
  \<open>io.in\<close> still addresses it; its connection is closing, and what becomes of a packet
  written to it is outside the model.
\<close>

fun leave_rooms :: "bool \<Rightarrow> world \<Rightarrow> string \<Rightarrow> jsval list \<Rightarrow> completion \<times> world" where
  "leave_rooms roster w sid [] = (Normal, w)"
| "leave_rooms roster w sid (roomId # rest) =
    (case removeUserFromRoom (rooms w) (toPropertyKey roomId) sid of
       (Throw e, reg) \<Rightarrow> (Throw e, w\<lparr>rooms := reg\<rparr>)
     | (Normal, reg) \<Rightarrow>
         (let w1 = w\<lparr>rooms := reg\<rparr>;
              w2 = socket_to_emit w1 sid roomId ''user-left'' (PValue (Str sid));
              w3 = (if roster
                    then io_in_emit w2 roomId ''room-users''
                           (PArray (getUsersInRoom (rooms w2) (toPropertyKey roomId)))
                    else w2)
          in leave_rooms roster w3 sid rest))"

definition on_disconnecting :: "bool \<Rightarrow> world \<Rightarrow> string \<Rightarrow> completion \<times> world" where
  "on_disconnecting roster w sid =
    leave_rooms roster w sid (filter (\<lambda>r. r \<noteq> Str sid) (elems (socket_rooms w sid)))"

text \<open>The emissions a handler added to the log, given the worlds before and after it.\<close>

definition emitted :: "world \<Rightarrow> world \<Rightarrow> emission list" where
  "emitted w w' = drop (length (sent w)) (sent w')"

text \<open>
  The emission the \<open>disconnecting\<close> handler of socket \<open>sid\<close> makes for room \<open>r\<close> through
  \<open>socket.to(r)\<close>.
\<close>

definition user_left :: "world \<Rightarrow> string \<Rightarrow> jsval \<Rightarrow> emission" where
  "user_left w sid r =
     \<lparr>em_event = ''user-left'', em_room = r, em_except = Some sid, em_body = PValue (Str sid),
      em_to = filter (\<lambda>m. Str sid \<notin> set (elems (socket_rooms w m))) (in_room w r)\<rparr>"

text \<open>
  The room named by the identifier of socket \<open>sid\<close> is private when \<open>sid\<close> is subscribed
  to it and no other connected socket is.
\<close>

definition private_room :: "world \<Rightarrow> string \<Rightarrow> bool" where
  "private_room w sid =
     (Str sid \<in> set (elems (socket_rooms w sid)) \<and>
      (\<forall>m \<in> set (connected w). m \<noteq> sid \<longrightarrow> Str sid \<notin> set (elems (socket_rooms w m))))"

section \<open>Example worlds\<close>

text \<open>
  Worlds built by the handlers themselves from the empty one, used to run the theorems
  on concrete inputs: three sockets in room \<open>jam1\<close>; the same with \<open>s2\<close> having also
  joined the room named \<open>s1\<close>, the identifier of another socket; a socket \<open>s2\<close> that
  joined the room named \<open>s1\<close> and room \<open>jam1\<close> before \<open>s1\<close> joins anything; a socket
  that sent \<open>join-room\<close> without a room identifier; a socket that joined the room named
  by its own identifier; a socket in two rooms, one of them shared.
\<close>

definition jam1_world :: world where
  "jam1_world =
     snd (on_join_room (snd (on_join_room (snd (on_join_room
       (connection (connection (connection init_world ''s1'') ''s2'') ''s3'')
       ''s1'' (Str ''jam1'') Undefined)) ''s2'' (Str ''jam1'') (Str ''bob''))) ''s3'' (Str ''jam1'') Undefined)"

definition crossed_world :: world where
  "crossed_world = snd (on_join_room jam1_world ''s2'' (Str ''s1'') Undefined)"

definition waiting_world :: world where
  "waiting_world =
     snd (on_join_room (snd (on_join_room (connection (connection init_world ''s1'') ''s2'')
       ''s2'' (Str ''s1'') Undefined)) ''s2'' (Str ''jam1'') Undefined)"

definition lobby_world :: world where
  "lobby_world =
     snd (on_join_room (connection (connection init_world ''s1'') ''s2'') ''s2'' Undefined Undefined)"

definition own_room_world :: world where
  "own_room_world = snd (on_join_room (connection init_world ''s1'') ''s1'' (Str ''s1'') Undefined)"

definition two_rooms_world :: world where
  "two_rooms_world =
     snd (on_join_room (snd (on_join_room (snd (on_join_room
       (connection (connection init_world ''s1'') ''s2'')
       ''s1'' (Str ''jam1'') Undefined)) ''s2'' (Str ''jam1'') Undefined)) ''s1'' (Str ''jam2'') Undefined)"

definition noon :: date where
  "noon = \<lparr>year = 2024, month = 5, day = 17, hours = 12, minutes = 0, seconds = 0, milliseconds = 0\<rparr>"

section \<open>Facts about the containers\<close>

lemma elems_set_new [simp]: "elems set_new = []"
  by (rule set_new.rep_eq)

lemma elems_set_add [simp]:
  "elems (set_add x s) = (if x \<in> set (elems s) then elems s else elems s @ [x])"
  by (rule set_add.rep_eq)

lemma elems_set_delete [simp]: "elems (set_delete x s) = removeAll x (elems s)"
  by (rule set_delete.rep_eq)

lemma distinct_elems [simp]: "distinct (elems s)"
  using elems [of s] by simp

lemma jsset_eq_iff: "s = t \<longleftrightarrow> elems s = elems t"
  by (simp add: elems_inject)

lemma set_add_twice [simp]: "set_add x (set_add x s) = set_add x s"
  by (simp add: jsset_eq_iff)

lemma count_list_distinct: "distinct xs \<Longrightarrow> x \<in> set xs \<Longrightarrow> count_list xs x = 1"
  by (induction xs) auto

lemma removeAll_only: "set xs \<subseteq> {x} \<Longrightarrow> removeAll x xs = []"
  by (induction xs) auto

lemma count_list_map_Str: "count_list (map Str xs) (Str x) = count_list xs x"
  by (induction xs) auto

section \<open>Facts about the registry\<close>

lemma initial_rooms_apply [simp]: "initial_rooms k = None"
  by (simp add: initial_rooms_def)

lemma get_prop_Absent_iff: "get_prop reg k = Absent \<longleftrightarrow> reg k = None \<and> \<not> inherited k"
  by (auto simp: get_prop_def inherited_def split: option.splits)

lemma get_prop_fresh: "reg k = None \<Longrightarrow> \<not> inherited k \<Longrightarrow> get_prop reg k = Absent"
  by (simp add: get_prop_Absent_iff)

lemma get_prop_own [simp]: "reg k = Some s \<Longrightarrow> get_prop reg k = Own s"
  by (simp add: get_prop_def)

lemma get_prop_upd_same [simp]: "get_prop (reg(k \<mapsto> s)) k = Own s"
  by (simp add: get_prop_def)

lemma get_prop_upd_other [simp]: "k' \<noteq> k \<Longrightarrow> get_prop (reg(k := v)) k' = get_prop reg k'"
  by (simp add: get_prop_def)

lemma get_prop_inherited:
  "reg k = None \<Longrightarrow> inherited k \<Longrightarrow> \<exists>n. get_prop reg k = Inherited n"
  by (auto simp: get_prop_def inherited_def split: option.splits)

lemma addUserToRoom_known:
  "reg k = Some s \<Longrightarrow> addUserToRoom reg k p = (Normal, reg(k \<mapsto> set_add p s))"
  by (simp add: addUserToRoom_def)

lemma addUserToRoom_fresh:
  "reg k = None \<Longrightarrow> \<not> inherited k \<Longrightarrow>
   addUserToRoom reg k p = (Normal, reg(k \<mapsto> set_add p set_new))"
  by (simp add: addUserToRoom_def get_prop_fresh)

lemma addUserToRoom_inherited:
  "reg k = None \<Longrightarrow> inherited k \<Longrightarrow> addUserToRoom reg k p = (Throw TypeError, reg)"
  using get_prop_inherited [of reg k] by (auto simp: addUserToRoom_def)

lemma removeUserFromRoom_inherited:
  "reg k = None \<Longrightarrow> inherited k \<Longrightarrow> removeUserFromRoom reg k p = (Throw TypeError, reg)"
  using get_prop_inherited [of reg k] by (auto simp: removeUserFromRoom_def)

lemma removeUserFromRoom_unknown:
  "reg k = None \<Longrightarrow> \<not> inherited k \<Longrightarrow> removeUserFromRoom reg k p = (Normal, reg)"
  by (simp add: removeUserFromRoom_def get_prop_fresh)

lemma removeUserFromRoom_known:
  "reg k = Some s \<Longrightarrow>
   removeUserFromRoom reg k p =
     (Normal, if removeAll p (elems s) = [] then reg(k := None) else reg(k \<mapsto> set_delete p s))"
  by (simp add: removeUserFromRoom_def set_size_def Let_def)

lemma getUsersInRoom_known [simp]: "reg k = Some s \<Longrightarrow> getUsersInRoom reg k = map Str (elems s)"
  by (simp add: getUsersInRoom_def)

lemma getUsersInRoom_unknown: "reg k = None \<Longrightarrow> \<not> inherited k \<Longrightarrow> getUsersInRoom reg k = []"
  by (simp add: getUsersInRoom_def get_prop_fresh)

lemma getUsersInRoom_other [simp]:
  "k' \<noteq> k \<Longrightarrow> getUsersInRoom (reg(k := v)) k' = getUsersInRoom reg k'"
  by (simp add: getUsersInRoom_def)

lemma inherited_constructor: "inherited ''constructor''"
  by (simp add: inherited_def objectPrototype_def)

lemma not_inherited_jam1: "\<not> inherited ''jam1''"
  by (simp add: inherited_def objectPrototype_def)

text \<open>Every call either leaves the registry alone or changes the entry of its room only.\<close>

lemma addUserToRoom_frame: "k' \<noteq> k \<Longrightarrow> snd (addUserToRoom reg k p) k' = reg k'"
  by (cases "reg k"; cases "inherited k")
     (simp_all add: addUserToRoom_known addUserToRoom_fresh addUserToRoom_inherited)

lemma removeUserFromRoom_frame: "k' \<noteq> k \<Longrightarrow> snd (removeUserFromRoom reg k p) k' = reg k'"
  by (cases "reg k"; cases "inherited k")
     (simp_all add: removeUserFromRoom_known removeUserFromRoom_unknown removeUserFromRoom_inherited)

lemma getUsersInRoom_cong: "reg' k = reg k \<Longrightarrow> getUsersInRoom reg' k = getUsersInRoom reg k"
  by (simp add: getUsersInRoom_def get_prop_def)

section \<open>Claims about the registry\<close>

text \<open>
  C1, as stated, fails: the claim starts from any registry state, and when the room has
  another member at the start, that member is still listed after the join and the leave.
  Here \<open>q\<close> is in room \<open>jam1\<close> before \<open>p\<close> joins and leaves; afterwards the room is still
  a key of the registry and lists \<open>q\<close>.
\<close>

theorem join_leave_other_member_stays:
  "getUsersInRoom
     (snd (removeUserFromRoom
        (snd (addUserToRoom (snd (addUserToRoom initial_rooms ''jam1'' ''q'')) ''jam1'' ''p''))
        ''jam1'' ''p'')) ''jam1'' = [Str ''q''] \<and>
   ''jam1'' \<in> room_keys
     (snd (removeUserFromRoom
        (snd (addUserToRoom (snd (addUserToRoom initial_rooms ''jam1'' ''q'')) ''jam1'' ''p''))
        ''jam1'' ''p''))"
  by (simp add: addUserToRoom_fresh addUserToRoom_known removeUserFromRoom_known not_inherited_jam1
      room_keys_def)

text \<open>
  C1, amended: for every participant \<open>P\<close> and every room \<open>R\<close> whose identifier is not the
  name of a member of \<open>Object.prototype\<close>, starting from any registry state in which
  \<open>R\<close> has no member other than \<open>P\<close> (in particular when \<open>R\<close> is unknown), the calls
  \<open>addUserToRoom(R, P)\<close> and then \<open>removeUserFromRoom(R, P)\<close> both return, and afterwards
  \<open>getUsersInRoom(R)\<close> is empty and \<open>R\<close> is not among the registry's keys.
\<close>

theorem join_then_leave_removes_room:
  assumes "\<not> inherited R" and "\<forall>s. reg R = Some s \<longrightarrow> set (elems s) \<subseteq> {P}"
  shows "fst (addUserToRoom reg R P) = Normal \<and>
         fst (removeUserFromRoom (snd (addUserToRoom reg R P)) R P) = Normal \<and>
         getUsersInRoom (snd (removeUserFromRoom (snd (addUserToRoom reg R P)) R P)) R = [] \<and>
         R \<notin> room_keys (snd (removeUserFromRoom (snd (addUserToRoom reg R P)) R P))"
proof (cases "reg R")
  case None
  with assms(1) show ?thesis
    by (simp add: addUserToRoom_fresh removeUserFromRoom_known getUsersInRoom_unknown room_keys_def)
next
  case (Some s)
  with assms(2) have "set (elems s) \<subseteq> {P}" by simp
  then have "removeAll P (elems s) = []"
    by (rule removeAll_only)
  then have "removeAll P (elems (set_add P s)) = []" by simp
  with Some assms(1) show ?thesis
    by (simp add: addUserToRoom_known removeUserFromRoom_known getUsersInRoom_unknown room_keys_def
        del: elems_set_add)
qed

theorem join_then_leave_removes_room_witness:
  "\<not> inherited ''jam1'' \<and>
   getUsersInRoom
     (snd (removeUserFromRoom (snd (addUserToRoom initial_rooms ''jam1'' ''p'')) ''jam1'' ''p''))
     ''jam1'' = [] \<and>
   ''jam1'' \<notin> room_keys
     (snd (removeUserFromRoom (snd (addUserToRoom initial_rooms ''jam1'' ''p'')) ''jam1'' ''p''))"
  using join_then_leave_removes_room [of "''jam1''" initial_rooms "''p''"]
  by (simp add: not_inherited_jam1)

text \<open>
  The invariant of C2 is carried by each call that changes the registry, whether it
  returns or throws.
\<close>

lemma nonempty_rooms_add:
  assumes "nonempty_rooms reg"
  shows "nonempty_rooms (snd (addUserToRoom reg R P))"
proof (cases "reg R")
  case None
  show ?thesis
  proof (cases "inherited R")
    case True
    with None assms show ?thesis by (simp add: addUserToRoom_inherited)
  next
    case False
    with None assms show ?thesis
      by (auto simp: addUserToRoom_fresh nonempty_rooms_def set_size_def)
  qed
next
  case (Some s)
  with assms show ?thesis
    by (auto simp: addUserToRoom_known nonempty_rooms_def set_size_def)
qed

lemma nonempty_rooms_remove:
  assumes "nonempty_rooms reg"
  shows "nonempty_rooms (snd (removeUserFromRoom reg R P))"
proof (cases "reg R")
  case None
  with assms show ?thesis
    by (cases "inherited R") (simp_all add: removeUserFromRoom_inherited removeUserFromRoom_unknown)
next
  case (Some s)
  with assms show ?thesis
    by (auto simp: removeUserFromRoom_known nonempty_rooms_def set_size_def)
qed

lemma reachable_nonempty_rooms: "reachable reg \<Longrightarrow> nonempty_rooms reg"
proof (induction rule: reachable.induct)
  case reachable_init
  show ?case by (simp add: nonempty_rooms_def)
next
  case (reachable_add rooms roomId socketId)
  then show ?case by (simp add: nonempty_rooms_add)
next
  case (reachable_remove rooms roomId socketId)
  then show ?case by (simp add: nonempty_rooms_remove)
qed

text \<open>
  C2: in every reachable registry state, every room identifier that is a key of the
  registry maps to a non-empty membership set, and \<open>addUserToRoom\<close> and
  \<open>removeUserFromRoom\<close> preserve this. \<open>getUsersInRoom\<close> only reads the registry, so it
  has no state to preserve.
\<close>

theorem registry_rooms_never_empty:
  "(reachable reg \<longrightarrow> nonempty_rooms reg) \<and>
   (nonempty_rooms reg \<longrightarrow>
      nonempty_rooms (snd (addUserToRoom reg R P)) \<and>
      nonempty_rooms (snd (removeUserFromRoom reg R P)))"
  by (simp add: reachable_nonempty_rooms nonempty_rooms_add nonempty_rooms_remove)

theorem registry_rooms_never_empty_witness:
  "reachable (snd (addUserToRoom initial_rooms ''jam1'' ''p'')) \<and>
   nonempty_rooms (snd (addUserToRoom initial_rooms ''jam1'' ''p'')) \<and>
   nonempty_rooms (snd (addUserToRoom (snd (addUserToRoom initial_rooms ''jam1'' ''p'')) ''jam2'' ''q'')) \<and>
   nonempty_rooms (snd (removeUserFromRoom (snd (addUserToRoom initial_rooms ''jam1'' ''p'')) ''jam1'' ''p''))"
proof -
  have r: "reachable (snd (addUserToRoom initial_rooms ''jam1'' ''p''))"
    by (rule reachable_add) (rule reachable_init)
  from r registry_rooms_never_empty
    [of "snd (addUserToRoom initial_rooms ''jam1'' ''p'')" "''jam2''" "''q''"]
  have 1: "nonempty_rooms (snd (addUserToRoom initial_rooms ''jam1'' ''p''))"
    and 2: "nonempty_rooms (snd (addUserToRoom (snd (addUserToRoom initial_rooms ''jam1'' ''p'')) ''jam2'' ''q''))"
    by simp_all
  from r registry_rooms_never_empty
    [of "snd (addUserToRoom initial_rooms ''jam1'' ''p'')" "''jam1''" "''p''"]
  have 3: "nonempty_rooms (snd (removeUserFromRoom (snd (addUserToRoom initial_rooms ''jam1'' ''p'')) ''jam1'' ''p''))"
    by simp
  from r 1 2 3 show ?thesis by simp
qed

text \<open>
  Joining twice leaves the registry as joining once does, for every room. Where the
  room is known, or its identifier is not the name of a member of \<open>Object.prototype\<close>,
  the call returns and the participant is listed exactly once.
\<close>

lemma addUserToRoom_twice:
  "snd (addUserToRoom (snd (addUserToRoom reg R P)) R P) = snd (addUserToRoom reg R P)"
  by (cases "reg R"; cases "inherited R")
     (simp_all add: addUserToRoom_known addUserToRoom_fresh addUserToRoom_inherited)

lemma addUserToRoom_lists_once:
  assumes "reg R \<noteq> None \<or> \<not> inherited R"
  shows "fst (addUserToRoom reg R P) = Normal \<and>
         count_list (getUsersInRoom (snd (addUserToRoom reg R P)) R) (Str P) = 1"
proof (cases "reg R")
  case None
  with assms show ?thesis
    by (simp add: addUserToRoom_fresh)
next
  case (Some s)
  have "count_list (elems (set_add P s)) P = 1"
    by (rule count_list_distinct) simp_all
  with Some show ?thesis
    by (simp add: addUserToRoom_known count_list_map_Str del: elems_set_add)
qed

text \<open>
  C3 says that after joining room \<open>R\<close> twice, \<open>getUsersInRoom(R)\<close> contains the
  participant exactly once, for every room. For the room named \<open>constructor\<close> the code
  does otherwise: \<open>rooms['constructor']\<close> is the inherited function \<open>Object\<close>, so no
  entry is created, \<open>add\<close> is not a method of it and the call throws; the listing is
  \<open>Array.from(Object)\<close>, one \<open>undefined\<close>, and the participant is not in it.
\<close>

theorem join_constructor_twice:
  "addUserToRoom initial_rooms ''constructor'' ''s1'' = (Throw TypeError, initial_rooms) \<and>
   getUsersInRoom
     (snd (addUserToRoom (snd (addUserToRoom initial_rooms ''constructor'' ''s1'')) ''constructor'' ''s1''))
     ''constructor'' = [Undefined]"
  by (simp add: addUserToRoom_inherited inherited_constructor getUsersInRoom_def get_prop_def
      objectPrototype_def)

text \<open>
  For every room whose identifier is not the name of a member of \<open>Object.prototype\<close>
  the registry calls return, and leaving a room one is not in changes nothing.
\<close>

lemma registry_calls_return:
  assumes "\<not> inherited R"
  shows "fst (addUserToRoom reg R P) = Normal" and "fst (removeUserFromRoom reg R P) = Normal"
  using assms
  by (cases "reg R"; simp add: addUserToRoom_known addUserToRoom_fresh removeUserFromRoom_known
      removeUserFromRoom_unknown)+

lemma removeUserFromRoom_not_member:
  assumes "reg R = Some s" and "P \<notin> set (elems s)" and "nonempty_rooms reg"
  shows "removeUserFromRoom reg R P = (Normal, reg)"
proof -
  from assms(2) have d: "set_delete P s = s" by (simp add: jsset_eq_iff)
  from assms(1,3) have "elems s \<noteq> []" by (auto simp: nonempty_rooms_def set_size_def)
  with assms(1,2) d show ?thesis
    by (simp add: removeUserFromRoom_known fun_upd_idem)
qed

text \<open>
  C4 says that no registry operation ever raises an error and that \<open>getUsersInRoom\<close>
  of an unknown room is empty. On the empty registry, for the room named \<open>constructor\<close>,
  \<open>addUserToRoom\<close> and \<open>removeUserFromRoom\<close> both throw a \<open>TypeError\<close>, and
  \<open>getUsersInRoom\<close> returns an array holding one \<open>undefined\<close>.
\<close>

theorem registry_calls_on_constructor:
  "fst (addUserToRoom initial_rooms ''constructor'' ''s1'') = Throw TypeError \<and>
   fst (removeUserFromRoom initial_rooms ''constructor'' ''s1'') = Throw TypeError \<and>
   getUsersInRoom initial_rooms ''constructor'' = [Undefined]"
  by (simp add: addUserToRoom_inherited removeUserFromRoom_inherited inherited_constructor
      getUsersInRoom_def get_prop_def objectPrototype_def)

text \<open>
  C10: for distinct room identifiers \<open>R\<close> and \<open>R'\<close>, neither \<open>addUserToRoom(R, P)\<close> nor
  \<open>removeUserFromRoom(R, P)\<close> changes what \<open>getUsersInRoom(R')\<close> returns, and \<open>R'\<close> is a
  key of the registry afterwards exactly when it was one before.
\<close>

theorem other_rooms_untouched:
  assumes "R' \<noteq> R"
  shows "getUsersInRoom (snd (addUserToRoom reg R P)) R' = getUsersInRoom reg R' \<and>
         (R' \<in> room_keys (snd (addUserToRoom reg R P)) \<longleftrightarrow> R' \<in> room_keys reg) \<and>
         getUsersInRoom (snd (removeUserFromRoom reg R P)) R' = getUsersInRoom reg R' \<and>
         (R' \<in> room_keys (snd (removeUserFromRoom reg R P)) \<longleftrightarrow> R' \<in> room_keys reg)"
proof -
  from assms have a: "snd (addUserToRoom reg R P) R' = reg R'"
    by (rule addUserToRoom_frame)
  from assms have r: "snd (removeUserFromRoom reg R P) R' = reg R'"
    by (rule removeUserFromRoom_frame)
  have "getUsersInRoom (snd (addUserToRoom reg R P)) R' = getUsersInRoom reg R'"
    using a by (rule getUsersInRoom_cong)
  moreover have "getUsersInRoom (snd (removeUserFromRoom reg R P)) R' = getUsersInRoom reg R'"
    using r by (rule getUsersInRoom_cong)
  moreover have "R' \<in> room_keys (snd (addUserToRoom reg R P)) \<longleftrightarrow> R' \<in> room_keys reg"
    using a by (simp add: room_keys_def dom_def)
  moreover have "R' \<in> room_keys (snd (removeUserFromRoom reg R P)) \<longleftrightarrow> R' \<in> room_keys reg"
    using r by (simp add: room_keys_def dom_def)
  ultimately show ?thesis by simp
qed

theorem other_rooms_untouched_witness:
  "''jam2'' \<noteq> ''jam1'' \<and>
   getUsersInRoom (snd (addUserToRoom (snd (addUserToRoom initial_rooms ''jam2'' ''q'')) ''jam1'' ''p'')) ''jam2''
     = [Str ''q''] \<and>
   ''jam2'' \<in> room_keys (snd (removeUserFromRoom (snd (addUserToRoom initial_rooms ''jam2'' ''q'')) ''jam1'' ''p''))"
  using other_rooms_untouched [of "''jam2''" "''jam1''" "snd (addUserToRoom initial_rooms ''jam2'' ''q'')" "''p''"]
  by (simp add: addUserToRoom_fresh inherited_def objectPrototype_def room_keys_def)

section \<open>Facts about the transport\<close>

lemma socket_to_emit_fields [simp]:
  "rooms (socket_to_emit w sid r ev b) = rooms w"
  "connected (socket_to_emit w sid r ev b) = connected w"
  "socket_rooms (socket_to_emit w sid r ev b) = socket_rooms w"
  "sent (socket_to_emit w sid r ev b) =
     sent w @ [\<lparr>em_event = ev, em_room = r, em_except = Some sid, em_body = b,
                em_to = filter (\<lambda>m. Str sid \<notin> set (elems (socket_rooms w m))) (in_room w r)\<rparr>]"
  by (simp_all add: socket_to_emit_def)

lemma io_in_emit_fields [simp]:
  "rooms (io_in_emit w r ev b) = rooms w"
  "connected (io_in_emit w r ev b) = connected w"
  "socket_rooms (io_in_emit w r ev b) = socket_rooms w"
  "sent (io_in_emit w r ev b) =
     sent w @ [\<lparr>em_event = ev, em_room = r, em_except = None, em_body = b,
                em_to = in_room w r\<rparr>]"
  by (simp_all add: io_in_emit_def)

lemma socket_join_fields [simp]:
  "rooms (socket_join w sid r) = rooms w"
  "connected (socket_join w sid r) = connected w"
  "socket_rooms (socket_join w sid r) = (socket_rooms w)(sid := set_add r (socket_rooms w sid))"
  "sent (socket_join w sid r) = sent w"
  by (simp_all add: socket_join_def)

lemma connection_fields [simp]:
  "rooms (connection w sid) = rooms w"
  "connected (connection w sid) = (if sid \<in> set (connected w) then connected w else connected w @ [sid])"
  "socket_rooms (connection w sid) = (socket_rooms w)(sid := set_add (Str sid) set_new)"
  "sent (connection w sid) = sent w"
  by (simp_all add: connection_def)

lemma init_world_fields [simp]:
  "rooms init_world = initial_rooms"
  "connected init_world = []"
  "socket_rooms init_world = (\<lambda>sid. set_new)"
  "sent init_world = []"
  by (simp_all add: init_world_def)

lemma in_room_emit [simp]:
  "in_room (socket_to_emit w sid r ev b) r' = in_room w r'"
  "in_room (io_in_emit w r ev b) r' = in_room w r'"
  "in_room (w\<lparr>rooms := reg\<rparr>) r' = in_room w r'"
  by (simp_all add: in_room_def)

lemma in_room_connected: "m \<in> set (in_room w r) \<Longrightarrow> m \<in> set (connected w)"
  by (simp add: in_room_def)

text \<open>
  What \<open>socket.to\<close> leaves out: the emitting socket, when it is subscribed to the room
  named by its identifier; and nobody else, when that room is private.
\<close>

lemma socket_to_not_back:
  "Str sid \<in> set (elems (socket_rooms w sid)) \<Longrightarrow>
   sid \<notin> set (filter (\<lambda>m. Str sid \<notin> set (elems (socket_rooms w m))) (in_room w r))"
  by simp

lemma socket_to_private:
  assumes "private_room w sid"
  shows "set (filter (\<lambda>m. Str sid \<notin> set (elems (socket_rooms w m))) (in_room w r)) =
         set (in_room w r) - {sid}"
  using assms in_room_connected [of _ w r] by (auto simp: private_room_def)

lemma private_room_join:
  assumes "private_room w sid"
  shows "private_room (socket_join w sid r) sid"
  using assms by (auto simp: private_room_def)

lemma toISOString_nonempty: "toISOString d \<noteq> []"
  by (simp add: toISOString_def)

lemma toISOString_example:
  "toISOString noon = ''2024-05-17T12:00:00.000Z''"
  by (simp add: toISOString_def noon_def pad_def digit_def upt_rec)

lemma not_inherited_examples:
  "\<not> inherited ''s1''" "\<not> inherited ''jam1''" "\<not> inherited ''jam2''"
  by (simp_all add: inherited_def objectPrototype_def)

section \<open>Claims about the event handlers\<close>

text \<open>
  In the theorems below, the sockets an emission is delivered to are those the
  transport resolves: for \<open>io.in(room)\<close> the subscribers of the room, for
  \<open>socket.to(room)\<close> the subscribers of the room that are not subscribed to the room
  named by the emitting socket's identifier. The \<open>join-room\<close> handler subscribes the
  socket to the room and enters it into the registry in the same step.
\<close>

subsection \<open>Joining\<close>

lemma in_room_after_join:
  "sid \<in> set (connected w) \<Longrightarrow> sid \<in> set (in_room (socket_join w sid r) r)"
  by (simp add: in_room_def)

lemma in_room_join_mono:
  "m \<in> set (in_room w r) \<Longrightarrow> m \<in> set (in_room (socket_join w sid r') r)"
  by (auto simp: in_room_def)

lemma on_join_room_ok:
  assumes "\<not> inherited (toPropertyKey roomId)"
  shows "on_join_room w sid roomId username =
     (Normal, (socket_join w sid roomId)
        \<lparr>rooms := snd (addUserToRoom (rooms w) (toPropertyKey roomId) sid),
         sent := sent w @
           [\<lparr>em_event = ''user-joined'', em_room = roomId, em_except = Some sid,
             em_body = PValue (if username = Undefined \<or> username = Str '''' then Str sid else username),
             em_to = filter (\<lambda>m. Str sid \<notin> set (elems (socket_rooms (socket_join w sid roomId) m)))
                       (in_room (socket_join w sid roomId) roomId)\<rparr>,
            \<lparr>em_event = ''room-users'', em_room = roomId, em_except = None,
             em_body = PArray (getUsersInRoom
                         (snd (addUserToRoom (rooms w) (toPropertyKey roomId) sid))
                         (toPropertyKey roomId)),
             em_to = in_room (socket_join w sid roomId) roomId\<rparr>]\<rparr>)"
proof -
  have j: "js_or username (Str sid) = (if username = Undefined \<or> username = Str '''' then Str sid else username)"
    by (cases username) (simp_all add: js_or_def)
  obtain reg where a: "addUserToRoom (rooms w) (toPropertyKey roomId) sid = (Normal, reg)"
    using registry_calls_return(1) [OF assms, of "rooms w" sid]
    by (cases "addUserToRoom (rooms w) (toPropertyKey roomId) sid") simp
  show ?thesis
    by (simp add: on_join_room_def a j socket_to_emit_def io_in_emit_def socket_join_def in_room_def)
qed

lemma on_join_room_fields:
  assumes "\<not> inherited (toPropertyKey roomId)"
  shows "connected (snd (on_join_room w sid roomId username)) = connected w"
    and "socket_rooms (snd (on_join_room w sid roomId username)) =
           (socket_rooms w)(sid := set_add roomId (socket_rooms w sid))"
    and "rooms (snd (on_join_room w sid roomId username)) =
           snd (addUserToRoom (rooms w) (toPropertyKey roomId) sid)"
  using assms by (simp_all add: on_join_room_ok)

text \<open>The example worlds, as the handlers leave them.\<close>

lemma jam1_world_shape:
  "connected jam1_world = [''s1'', ''s2'', ''s3'']"
  "elems (socket_rooms jam1_world ''s1'') = [Str ''s1'', Str ''jam1'']"
  "elems (socket_rooms jam1_world ''s2'') = [Str ''s2'', Str ''jam1'']"
  "elems (socket_rooms jam1_world ''s3'') = [Str ''s3'', Str ''jam1'']"
  "rooms jam1_world =
     initial_rooms(''jam1'' \<mapsto> set_add ''s3'' (set_add ''s2'' (set_add ''s1'' set_new)))"
  by (simp_all add: jam1_world_def on_join_room_fields not_inherited_examples
      addUserToRoom_fresh addUserToRoom_known)

lemma in_room_jam1: "in_room jam1_world (Str ''jam1'') = [''s1'', ''s2'', ''s3'']"
  by (simp add: in_room_def jam1_world_shape)

lemma private_room_jam1: "private_room jam1_world ''s1''"
  by (simp add: private_room_def jam1_world_shape)

lemma crossed_world_shape:
  "connected crossed_world = [''s1'', ''s2'', ''s3'']"
  "elems (socket_rooms crossed_world ''s1'') = [Str ''s1'', Str ''jam1'']"
  "elems (socket_rooms crossed_world ''s2'') = [Str ''s2'', Str ''jam1'', Str ''s1'']"
  "elems (socket_rooms crossed_world ''s3'') = [Str ''s3'', Str ''jam1'']"
  "getUsersInRoom (rooms crossed_world) ''jam1'' = [Str ''s1'', Str ''s2'', Str ''s3'']"
  by (simp_all add: crossed_world_def on_join_room_fields not_inherited_examples
      addUserToRoom_fresh jam1_world_shape)

lemma in_room_crossed: "in_room crossed_world (Str ''jam1'') = [''s1'', ''s2'', ''s3'']"
  by (simp add: in_room_def crossed_world_shape)

lemma waiting_world_shape:
  "connected waiting_world = [''s1'', ''s2'']"
  "elems (socket_rooms waiting_world ''s1'') = [Str ''s1'']"
  "elems (socket_rooms waiting_world ''s2'') = [Str ''s2'', Str ''s1'', Str ''jam1'']"
  by (simp_all add: waiting_world_def on_join_room_fields not_inherited_examples)

lemma not_inherited_undefined: "\<not> inherited (toPropertyKey Undefined)"
  by (simp add: inherited_def objectPrototype_def)

lemma lobby_world_shape:
  "connected lobby_world = [''s1'', ''s2'']"
  "elems (socket_rooms lobby_world ''s1'') = [Str ''s1'']"
  "elems (socket_rooms lobby_world ''s2'') = [Str ''s2'', Undefined]"
  by (simp_all add: lobby_world_def on_join_room_fields [OF not_inherited_undefined])

lemma in_room_lobby: "in_room lobby_world Undefined = [''s2'']"
  by (simp add: in_room_def lobby_world_shape)

text \<open>
  C6, as stated, fails in two ways. A display name that is supplied but empty is not
  carried by \<open>user-joined\<close>: \<open>username || socket.id\<close> falls back to the session
  identifier for every falsy name; socket \<open>s2\<close> joins \<open>jam1\<close> with the display name
  \<open>''\<close>, and the broadcast carries \<open>s2\<close>. And \<open>user-joined\<close> does not reach every other
  member: \<open>socket.to\<close> leaves out the sockets that have joined the room named by the
  joiner's identifier; \<open>s2\<close> is in \<open>jam1\<close> and in the room named \<open>s1\<close>, and when \<open>s1\<close>
  joins \<open>jam1\<close> the \<open>user-joined\<close> broadcast is delivered to nobody, while the
  \<open>room-users\<close> broadcast reaches both.
\<close>

theorem join_room_empty_name:
  "map em_body (sent (snd (on_join_room (connection (connection init_world ''s1'') ''s2'')
      ''s2'' (Str ''jam1'') (Str '''')))) = [PValue (Str ''s2''), PArray [Str ''s2'']] \<and>
   map em_to (emitted waiting_world
      (snd (on_join_room waiting_world ''s1'' (Str ''jam1'') (Str ''ann'')))) =
     [[], [''s1'', ''s2'']]"
  by (simp add: on_join_room_ok not_inherited_examples addUserToRoom_fresh emitted_def
      in_room_def waiting_world_shape)

text \<open>
  C6, amended: on \<open>join-room(room, displayName?)\<close>, for a room whose identifier is not
  the name of a member of \<open>Object.prototype\<close>, the handler subscribes the session to the
  room, performs \<open>addUserToRoom(room, sessionId)\<close>, then emits \<open>user-joined\<close> carrying
  the display name when it is a non-empty string and the session identifier when it is
  absent or empty, to the subscribers of the room that are not subscribed to the room
  named by the session's identifier, and then emits \<open>room-users\<close> carrying
  \<open>getUsersInRoom(room)\<close> to all subscribers of the room, the joiner (when connected)
  among them. The joiner, subscribed to the room named by its identifier, does not
  receive \<open>user-joined\<close>; when that room is private, \<open>user-joined\<close> reaches exactly the
  other subscribers of the room. When the room is unknown and two connected sessions
  join it one after the other, the last \<open>room-users\<close> carries exactly the two of them
  and is delivered to both.
\<close>

theorem join_room_roster:
  assumes "\<not> inherited (toPropertyKey roomId)"
  shows "on_join_room w sid roomId username =
     (Normal, (socket_join w sid roomId)
        \<lparr>rooms := snd (addUserToRoom (rooms w) (toPropertyKey roomId) sid),
         sent := sent w @
           [\<lparr>em_event = ''user-joined'', em_room = roomId, em_except = Some sid,
             em_body = PValue (if username = Undefined \<or> username = Str '''' then Str sid else username),
             em_to = filter (\<lambda>m. Str sid \<notin> set (elems (socket_rooms (socket_join w sid roomId) m)))
                       (in_room (socket_join w sid roomId) roomId)\<rparr>,
            \<lparr>em_event = ''room-users'', em_room = roomId, em_except = None,
             em_body = PArray (getUsersInRoom
                         (snd (addUserToRoom (rooms w) (toPropertyKey roomId) sid))
                         (toPropertyKey roomId)),
             em_to = in_room (socket_join w sid roomId) roomId\<rparr>]\<rparr>) \<and>
     (Str sid \<in> set (elems (socket_rooms w sid)) \<longrightarrow>
        sid \<notin> set (filter (\<lambda>m. Str sid \<notin> set (elems (socket_rooms (socket_join w sid roomId) m)))
                       (in_room (socket_join w sid roomId) roomId))) \<and>
     (private_room w sid \<longrightarrow>
        set (filter (\<lambda>m. Str sid \<notin> set (elems (socket_rooms (socket_join w sid roomId) m)))
                       (in_room (socket_join w sid roomId) roomId)) =
        set (in_room (socket_join w sid roomId) roomId) - {sid}) \<and>
     (sid \<in> set (connected w) \<longrightarrow> sid \<in> set (in_room (socket_join w sid roomId) roomId)) \<and>
     (\<forall>sid2 username2.
        rooms w (toPropertyKey roomId) = None \<and> sid2 \<noteq> sid \<and>
        sid \<in> set (connected w) \<and> sid2 \<in> set (connected w) \<longrightarrow>
        em_event (last (sent (snd (on_join_room (snd (on_join_room w sid roomId username))
                                      sid2 roomId username2)))) = ''room-users'' \<and>
        em_body (last (sent (snd (on_join_room (snd (on_join_room w sid roomId username))
                                      sid2 roomId username2)))) = PArray [Str sid, Str sid2] \<and>
        {sid, sid2} \<subseteq> set (em_to (last (sent (snd (on_join_room
                                      (snd (on_join_room w sid roomId username))
                                      sid2 roomId username2))))))"
proof (intro conjI allI impI)
  show "on_join_room w sid roomId username =
     (Normal, (socket_join w sid roomId)
        \<lparr>rooms := snd (addUserToRoom (rooms w) (toPropertyKey roomId) sid),
         sent := sent w @
           [\<lparr>em_event = ''user-joined'', em_room = roomId, em_except = Some sid,
             em_body = PValue (if username = Undefined \<or> username = Str '''' then Str sid else username),
             em_to = filter (\<lambda>m. Str sid \<notin> set (elems (socket_rooms (socket_join w sid roomId) m)))
                       (in_room (socket_join w sid roomId) roomId)\<rparr>,
            \<lparr>em_event = ''room-users'', em_room = roomId, em_except = None,
             em_body = PArray (getUsersInRoom
                         (snd (addUserToRoom (rooms w) (toPropertyKey roomId) sid))
                         (toPropertyKey roomId)),
             em_to = in_room (socket_join w sid roomId) roomId\<rparr>]\<rparr>)"
    using assms by (rule on_join_room_ok)
next
  assume "Str sid \<in> set (elems (socket_rooms w sid))"
  then have "Str sid \<in> set (elems (socket_rooms (socket_join w sid roomId) sid))"
    by simp
  then show "sid \<notin> set (filter (\<lambda>m. Str sid \<notin> set (elems (socket_rooms (socket_join w sid roomId) m)))
                       (in_room (socket_join w sid roomId) roomId))"
    by (rule socket_to_not_back)
next
  assume "private_room w sid"
  then have "private_room (socket_join w sid roomId) sid"
    by (rule private_room_join)
  then show "set (filter (\<lambda>m. Str sid \<notin> set (elems (socket_rooms (socket_join w sid roomId) m)))
                       (in_room (socket_join w sid roomId) roomId)) =
        set (in_room (socket_join w sid roomId) roomId) - {sid}"
    by (rule socket_to_private)
next
  assume "sid \<in> set (connected w)"
  then show "sid \<in> set (in_room (socket_join w sid roomId) roomId)"
    by (rule in_room_after_join)
next
  fix sid2 username2
  assume h: "rooms w (toPropertyKey roomId) = None \<and> sid2 \<noteq> sid \<and>
             sid \<in> set (connected w) \<and> sid2 \<in> set (connected w)"
  let ?w1 = "snd (on_join_room w sid roomId username)"
  let ?w2 = "snd (on_join_room ?w1 sid2 roomId username2)"
  from h assms have r1: "rooms ?w1 = (rooms w)(toPropertyKey roomId \<mapsto> set_add sid set_new)"
    by (simp add: on_join_room_fields addUserToRoom_fresh)
  have c1: "connected ?w1 = connected w"
    using assms by (simp add: on_join_room_fields)
  from h have m1: "sid \<in> set (in_room ?w1 roomId)"
    using assms by (simp add: on_join_room_fields in_room_def)
  show "em_event (last (sent ?w2)) = ''room-users''"
    using assms by (simp add: on_join_room_ok [of roomId ?w1])
  from h r1 show "em_body (last (sent ?w2)) = PArray [Str sid, Str sid2]"
    using assms by (simp add: on_join_room_ok [of roomId ?w1] addUserToRoom_known)
  have "sid \<in> set (in_room (socket_join ?w1 sid2 roomId) roomId)"
    using m1 by (rule in_room_join_mono)
  moreover have "sid2 \<in> set (in_room (socket_join ?w1 sid2 roomId) roomId)"
    using h c1 by (simp add: in_room_after_join)
  ultimately show "{sid, sid2} \<subseteq> set (em_to (last (sent ?w2)))"
    using assms by (simp add: on_join_room_ok [of roomId ?w1])
qed

theorem join_room_roster_witness:
  "on_join_room (connection (connection init_world ''s1'') ''s2'') ''s1'' (Str ''jam1'') (Str ''ann'') =
     (Normal, (socket_join (connection (connection init_world ''s1'') ''s2'') ''s1'' (Str ''jam1''))
        \<lparr>rooms := initial_rooms(''jam1'' \<mapsto> set_add ''s1'' set_new),
         sent := [\<lparr>em_event = ''user-joined'', em_room = Str ''jam1'', em_except = Some ''s1'',
                   em_body = PValue (Str ''ann''), em_to = []\<rparr>,
                  \<lparr>em_event = ''room-users'', em_room = Str ''jam1'', em_except = None,
                   em_body = PArray [Str ''s1''], em_to = [''s1'']\<rparr>]\<rparr>) \<and>
   em_body (last (sent (snd (on_join_room
      (snd (on_join_room (connection (connection init_world ''s1'') ''s2'') ''s1'' (Str ''jam1'') (Str ''ann'')))
      ''s2'' (Str ''jam1'') Undefined)))) = PArray [Str ''s1'', Str ''s2'']"
proof -
  have n: "\<not> inherited (toPropertyKey (Str ''jam1''))"
    by (simp add: not_inherited_jam1)
  note t = join_room_roster
    [OF n, of "connection (connection init_world ''s1'') ''s2''" "''s1''" "Str ''ann''"]
  from t have 1: "on_join_room (connection (connection init_world ''s1'') ''s2'') ''s1'' (Str ''jam1'') (Str ''ann'') =
     (Normal, (socket_join (connection (connection init_world ''s1'') ''s2'') ''s1'' (Str ''jam1''))
        \<lparr>rooms := initial_rooms(''jam1'' \<mapsto> set_add ''s1'' set_new),
         sent := [\<lparr>em_event = ''user-joined'', em_room = Str ''jam1'', em_except = Some ''s1'',
                   em_body = PValue (Str ''ann''), em_to = []\<rparr>,
                  \<lparr>em_event = ''room-users'', em_room = Str ''jam1'', em_except = None,
                   em_body = PArray [Str ''s1''], em_to = [''s1'']\<rparr>]\<rparr>)"
    by (simp add: not_inherited_jam1 addUserToRoom_fresh in_room_def)
  from t [THEN conjunct2, THEN conjunct2, THEN conjunct2, THEN conjunct2, rule_format, of "''s2''" Undefined]
  have 2: "em_body (last (sent (snd (on_join_room
      (snd (on_join_room (connection (connection init_world ''s1'') ''s2'') ''s1'' (Str ''jam1'') (Str ''ann'')))
      ''s2'' (Str ''jam1'') Undefined)))) = PArray [Str ''s1'', Str ''s2'']"
    by simp
  from 1 2 show ?thesis by (rule conjI)
qed

subsection \<open>Disconnecting\<close>

lemma filter_eq_distinct: "distinct xs \<Longrightarrow> x \<in> set xs \<Longrightarrow> filter (\<lambda>y. y = x) xs = [x]"
  by (induction xs) (auto simp: filter_empty_conv)

lemma key_clash:
  "r \<noteq> r' \<Longrightarrow> toPropertyKey r = toPropertyKey r' \<Longrightarrow> \<not> inherited (toPropertyKey r)"
  by (cases r; cases r') (auto simp: inherited_def objectPrototype_def)

lemma getUsersInRoom_no_entry: "reg k = None \<Longrightarrow> Str p \<notin> set (getUsersInRoom reg k)"
  by (auto simp: getUsersInRoom_def get_prop_def split: option.splits)

lemma removeUserFromRoom_returns:
  "reg k \<noteq> None \<or> \<not> inherited k \<Longrightarrow> fst (removeUserFromRoom reg k p) = Normal"
  by (cases "reg k") (auto simp: removeUserFromRoom_known removeUserFromRoom_unknown)

lemma removeUserFromRoom_not_listed:
  "fst (removeUserFromRoom reg k p) = Normal \<Longrightarrow>
   Str p \<notin> set (getUsersInRoom (snd (removeUserFromRoom reg k p)) k)"
proof (cases "reg k")
  case None
  assume "fst (removeUserFromRoom reg k p) = Normal"
  with None have "\<not> inherited k"
    by (auto simp: removeUserFromRoom_inherited)
  with None show ?thesis
    by (simp add: removeUserFromRoom_unknown getUsersInRoom_no_entry)
next
  case (Some s)
  then show ?thesis
    by (auto simp: removeUserFromRoom_known getUsersInRoom_no_entry)
qed

lemma removeUserFromRoom_keeps_not_listed:
  assumes "Str p \<notin> set (getUsersInRoom reg k')"
  shows "Str p \<notin> set (getUsersInRoom (snd (removeUserFromRoom reg k p)) k')"
proof (cases "k' = k")
  case False
  then have "snd (removeUserFromRoom reg k p) k' = reg k'"
    by (rule removeUserFromRoom_frame)
  then have "getUsersInRoom (snd (removeUserFromRoom reg k p)) k' = getUsersInRoom reg k'"
    by (rule getUsersInRoom_cong)
  with assms show ?thesis by simp
next
  case True
  show ?thesis
  proof (cases "fst (removeUserFromRoom reg k p)")
    case Normal
    with True show ?thesis by (simp add: removeUserFromRoom_not_listed)
  next
    case (Throw e)
    have "snd (removeUserFromRoom reg k p) = reg"
      using Throw by (cases "reg k"; cases "inherited k")
        (simp_all add: removeUserFromRoom_known removeUserFromRoom_unknown
          removeUserFromRoom_inherited)
    with assms True show ?thesis by simp
  qed
qed

lemma leave_rooms_transport:
  "connected (snd (leave_rooms roster w sid rs)) = connected w \<and>
   socket_rooms (snd (leave_rooms roster w sid rs)) = socket_rooms w"
proof (induction rs arbitrary: w)
  case Nil
  show ?case by simp
next
  case (Cons r rs)
  show ?case
  proof (cases "removeUserFromRoom (rooms w) (toPropertyKey r) sid")
    case (Pair c reg)
    then show ?thesis
      by (cases c) (simp_all add: Cons.IH Let_def)
  qed
qed

lemma leave_rooms_keeps_not_listed:
  "Str sid \<notin> set (getUsersInRoom (rooms w) k) \<Longrightarrow>
   Str sid \<notin> set (getUsersInRoom (rooms (snd (leave_rooms roster w sid rs))) k)"
proof (induction rs arbitrary: w)
  case Nil
  then show ?case by simp
next
  case (Cons r rs)
  have n: "Str sid \<notin> set (getUsersInRoom (snd (removeUserFromRoom (rooms w) (toPropertyKey r) sid)) k)"
    using Cons.prems by (rule removeUserFromRoom_keeps_not_listed)
  show ?case
  proof (cases "removeUserFromRoom (rooms w) (toPropertyKey r) sid")
    case (Pair c reg)
    with n have "Str sid \<notin> set (getUsersInRoom reg k)" by simp
    with Pair show ?thesis
      by (cases c) (simp_all add: Cons.IH Let_def)
  qed
qed

text \<open>
  The loop returns when every room it visits is known to the registry or is not named
  after an inherited member; it removes the session from each of them and emits one
  \<open>user-left\<close> for each, in order, whether or not the roster follows.
\<close>

lemma leave_rooms_all:
  assumes "distinct rs"
    and "\<forall>r \<in> set rs. rooms w (toPropertyKey r) \<noteq> None \<or> \<not> inherited (toPropertyKey r)"
  shows "fst (leave_rooms roster w sid rs) = Normal \<and>
         (\<forall>r \<in> set rs. Str sid \<notin> set (getUsersInRoom (rooms (snd (leave_rooms roster w sid rs))) (toPropertyKey r))) \<and>
         (\<exists>es. sent (snd (leave_rooms roster w sid rs)) = sent w @ es \<and>
               filter (\<lambda>e. em_event e = ''user-left'') es = map (user_left w sid) rs)"
  using assms
proof (induction rs arbitrary: w)
  case Nil
  show ?case by simp
next
  case (Cons r rs)
  let ?k = "toPropertyKey r"
  obtain c reg where cr: "removeUserFromRoom (rooms w) ?k sid = (c, reg)"
    by (cases "removeUserFromRoom (rooms w) ?k sid")
  then have regdef: "reg = snd (removeUserFromRoom (rooms w) ?k sid)"
    by simp
  let ?w1 = "w\<lparr>rooms := reg\<rparr>"
  let ?w2 = "socket_to_emit ?w1 sid r ''user-left'' (PValue (Str sid))"
  let ?w3 = "if roster
             then io_in_emit ?w2 r ''room-users'' (PArray (getUsersInRoom (rooms ?w2) ?k))
             else ?w2"
  let ?ros = "if roster
              then [\<lparr>em_event = ''room-users'', em_room = r, em_except = None,
                     em_body = PArray (getUsersInRoom reg ?k), em_to = in_room w r\<rparr>]
              else []"
  from Cons.prems(2) have "rooms w ?k \<noteq> None \<or> \<not> inherited ?k" by simp
  then have ret: "fst (removeUserFromRoom (rooms w) ?k sid) = Normal"
    by (rule removeUserFromRoom_returns)
  with cr have step: "removeUserFromRoom (rooms w) ?k sid = (Normal, reg)"
    by simp
  have unfold: "leave_rooms roster w sid (r # rs) = leave_rooms roster ?w3 sid rs"
    by (subst leave_rooms.simps) (simp add: step Let_def)
  have d: "distinct rs" and nr: "r \<notin> set rs"
    using Cons.prems(1) by simp_all
  have reg3: "rooms ?w3 = reg" and con3: "connected ?w3 = connected w"
    and sr3: "socket_rooms ?w3 = socket_rooms w"
    by simp_all
  have safe: "\<forall>r' \<in> set rs. rooms ?w3 (toPropertyKey r') \<noteq> None \<or> \<not> inherited (toPropertyKey r')"
  proof
    fix r' assume r': "r' \<in> set rs"
    with nr have ne: "r \<noteq> r'" by auto
    show "rooms ?w3 (toPropertyKey r') \<noteq> None \<or> \<not> inherited (toPropertyKey r')"
    proof (cases "toPropertyKey r' = ?k")
      case True
      with ne key_clash [of r r'] show ?thesis by simp
    next
      case False
      then have "reg (toPropertyKey r') = rooms w (toPropertyKey r')"
        unfolding regdef by (rule removeUserFromRoom_frame)
      with Cons.prems(2) r' show ?thesis by (simp only: reg3) simp
    qed
  qed
  note ih = Cons.IH [OF d safe]
  have ul: "user_left ?w3 sid = user_left w sid"
    by (rule ext) (simp only: user_left_def in_room_def con3 sr3)
  have first: "Str sid \<notin> set (getUsersInRoom (rooms (snd (leave_rooms roster ?w3 sid rs))) ?k)"
  proof (rule leave_rooms_keeps_not_listed)
    show "Str sid \<notin> set (getUsersInRoom (rooms ?w3) ?k)"
      using ret removeUserFromRoom_not_listed [of "rooms w" ?k sid]
      by (simp only: reg3) (simp add: regdef)
  qed
  from ih obtain es where es: "sent (snd (leave_rooms roster ?w3 sid rs)) = sent ?w3 @ es"
    and fes: "filter (\<lambda>e. em_event e = ''user-left'') es = map (user_left ?w3 sid) rs"
    by blast
  have s3: "sent ?w3 = sent w @ user_left w sid r # ?ros"
    by (simp add: user_left_def)
  have fros: "filter (\<lambda>e. em_event e = ''user-left'') ?ros = []"
    by simp
  have "fst (leave_rooms roster w sid (r # rs)) = Normal"
    using ih unfold by simp
  moreover have "\<forall>r' \<in> set (r # rs).
      Str sid \<notin> set (getUsersInRoom (rooms (snd (leave_rooms roster w sid (r # rs)))) (toPropertyKey r'))"
    using ih first unfold by simp
  moreover have "\<exists>es'. sent (snd (leave_rooms roster w sid (r # rs))) = sent w @ es' \<and>
      filter (\<lambda>e. em_event e = ''user-left'') es' = map (user_left w sid) (r # rs)"
  proof (intro exI conjI)
    show "sent (snd (leave_rooms roster w sid (r # rs))) = sent w @ (user_left w sid r # ?ros @ es)"
      by (simp only: unfold es s3) simp
    have "filter (\<lambda>e. em_event e = ''user-left'') (user_left w sid r # ?ros @ es) =
          user_left w sid r # filter (\<lambda>e. em_event e = ''user-left'') ?ros @
          filter (\<lambda>e. em_event e = ''user-left'') es"
      by (simp add: user_left_def)
    also have "\<dots> = user_left w sid r # map (user_left w sid) rs"
      by (simp only: fros fes ul) simp
    finally show "filter (\<lambda>e. em_event e = ''user-left'') (user_left w sid r # ?ros @ es)
      = map (user_left w sid) (r # rs)"
      by simp
  qed
  ultimately show ?case by blast
qed

lemma own_room_world_shape:
  "elems (socket_rooms own_room_world ''s1'') = [Str ''s1'']"
  "getUsersInRoom (rooms own_room_world) ''s1'' = [Str ''s1'']"
  by (simp_all add: own_room_world_def on_join_room_fields not_inherited_examples
      addUserToRoom_fresh)

lemma two_rooms_world_shape:
  "connected two_rooms_world = [''s1'', ''s2'']"
  "elems (socket_rooms two_rooms_world ''s1'') = [Str ''s1'', Str ''jam1'', Str ''jam2'']"
  "elems (socket_rooms two_rooms_world ''s2'') = [Str ''s2'', Str ''jam1'']"
  "getUsersInRoom (rooms two_rooms_world) ''jam1'' = [Str ''s1'', Str ''s2'']"
  "getUsersInRoom (rooms two_rooms_world) ''jam2'' = [Str ''s1'']"
  by (simp_all add: two_rooms_world_def on_join_room_fields not_inherited_examples
      addUserToRoom_fresh addUserToRoom_known)

text \<open>
  C5, as stated, fails in two ways. The handler leaves out the room named by the
  session's own identifier (\<open>filter((r) => r !== socket.id)\<close>), so a session that has
  joined that room stays in the registry: socket \<open>s1\<close> has sent \<open>join-room\<close> for room
  \<open>s1\<close>; it is listed in that room, and its \<open>disconnecting\<close> event changes nothing, in
  server.js as in the other copies. And \<open>user-left\<close> does not reach every other member
  of a room: \<open>s1\<close>, \<open>s2\<close> and \<open>s3\<close> are in \<open>jam1\<close> and \<open>s2\<close> has also joined the room
  named \<open>s1\<close>; when \<open>s1\<close> disconnects, \<open>user-left\<close> for \<open>jam1\<close> is delivered to \<open>s3\<close>
  only, in server.js (where it is the first emission) as in the other copies (where it
  is the only one).
\<close>

theorem disconnecting_skips_own_room:
  "elems (socket_rooms own_room_world ''s1'') = [Str ''s1''] \<and>
   getUsersInRoom (rooms own_room_world) ''s1'' = [Str ''s1''] \<and>
   on_disconnecting True own_room_world ''s1'' = (Normal, own_room_world) \<and>
   on_disconnecting False own_room_world ''s1'' = (Normal, own_room_world) \<and>
   in_room crossed_world (Str ''jam1'') = [''s1'', ''s2'', ''s3''] \<and>
   emitted crossed_world (snd (on_disconnecting False crossed_world ''s1'')) =
     [\<lparr>em_event = ''user-left'', em_room = Str ''jam1'', em_except = Some ''s1'',
       em_body = PValue (Str ''s1''), em_to = [''s3'']\<rparr>] \<and>
   hd (emitted crossed_world (snd (on_disconnecting True crossed_world ''s1''))) =
     \<lparr>em_event = ''user-left'', em_room = Str ''jam1'', em_except = Some ''s1'',
       em_body = PValue (Str ''s1''), em_to = [''s3'']\<rparr>"
proof -
  have "rooms crossed_world ''jam1'' =
          Some (set_add ''s3'' (set_add ''s2'' (set_add ''s1'' set_new)))"
    by (simp add: crossed_world_def on_join_room_fields not_inherited_examples
        addUserToRoom_fresh jam1_world_shape)
  then have "emitted crossed_world (snd (on_disconnecting False crossed_world ''s1'')) =
     [\<lparr>em_event = ''user-left'', em_room = Str ''jam1'', em_except = Some ''s1'',
       em_body = PValue (Str ''s1''), em_to = [''s3'']\<rparr>]"
    and "hd (emitted crossed_world (snd (on_disconnecting True crossed_world ''s1''))) =
     \<lparr>em_event = ''user-left'', em_room = Str ''jam1'', em_except = Some ''s1'',
       em_body = PValue (Str ''s1''), em_to = [''s3'']\<rparr>"
    by (simp_all add: on_disconnecting_def crossed_world_shape removeUserFromRoom_known
        emitted_def in_room_def)
  then show ?thesis
    by (simp add: own_room_world_shape on_disconnecting_def in_room_crossed)
qed

text \<open>
  C5, amended: for a session that is listed in the registry for every room it is
  subscribed to, other than the room named by its own identifier, the \<open>disconnecting\<close>
  handler (of server.js and of the other copies alike) returns, and for every such room
  \<open>r\<close>: afterwards \<open>getUsersInRoom(r)\<close> does not contain the session, and the handler has
  emitted exactly one \<open>user-left\<close> for \<open>r\<close>, carrying the session identifier, delivered
  to the subscribers of \<open>r\<close> that are not subscribed to the room named by the session's
  identifier. The session, subscribed to that room, does not receive it; when that
  room is private, \<open>user-left\<close> reaches exactly the other subscribers of \<open>r\<close>.
\<close>

theorem disconnecting_leaves_rooms:
  assumes "\<forall>r \<in> set (elems (socket_rooms w sid)).
             r \<noteq> Str sid \<longrightarrow> Str sid \<in> set (getUsersInRoom (rooms w) (toPropertyKey r))"
  shows "fst (on_disconnecting roster w sid) = Normal \<and>
    (\<forall>r \<in> set (elems (socket_rooms w sid)). r \<noteq> Str sid \<longrightarrow>
       Str sid \<notin> set (getUsersInRoom (rooms (snd (on_disconnecting roster w sid))) (toPropertyKey r)) \<and>
       filter (\<lambda>e. em_event e = ''user-left'' \<and> em_room e = r)
              (emitted w (snd (on_disconnecting roster w sid))) =
         [\<lparr>em_event = ''user-left'', em_room = r, em_except = Some sid,
           em_body = PValue (Str sid),
           em_to = filter (\<lambda>m. Str sid \<notin> set (elems (socket_rooms w m))) (in_room w r)\<rparr>] \<and>
       (Str sid \<in> set (elems (socket_rooms w sid)) \<longrightarrow>
          sid \<notin> set (filter (\<lambda>m. Str sid \<notin> set (elems (socket_rooms w m))) (in_room w r))) \<and>
       (private_room w sid \<longrightarrow>
          set (filter (\<lambda>m. Str sid \<notin> set (elems (socket_rooms w m))) (in_room w r)) =
          set (in_room w r) - {sid}))"
proof -
  let ?rs = "filter (\<lambda>r. r \<noteq> Str sid) (elems (socket_rooms w sid))"
  let ?w' = "snd (on_disconnecting roster w sid)"
  have d: "distinct ?rs" by simp
  have safe: "\<forall>r \<in> set ?rs. rooms w (toPropertyKey r) \<noteq> None \<or> \<not> inherited (toPropertyKey r)"
    using assms getUsersInRoom_no_entry [of "rooms w" _ sid] by auto
  note all = leave_rooms_all [OF d safe, of roster sid, folded on_disconnecting_def]
  from all obtain es where es: "sent ?w' = sent w @ es"
    and fes: "filter (\<lambda>e. em_event e = ''user-left'') es = map (user_left w sid) ?rs"
    by blast
  have em: "emitted w ?w' = es"
    by (simp add: emitted_def es)
  have per_room: "filter (\<lambda>e. em_event e = ''user-left'' \<and> em_room e = r) es = [user_left w sid r]"
    if "r \<in> set ?rs" for r
  proof -
    have "filter (\<lambda>e. em_event e = ''user-left'' \<and> em_room e = r) es =
          filter (\<lambda>e. em_room e = r) (filter (\<lambda>e. em_event e = ''user-left'') es)"
      by (simp add: conj_commute)
    also have "\<dots> = map (user_left w sid) (filter (\<lambda>y. y = r) ?rs)"
      unfolding fes filter_map by (simp add: comp_def user_left_def)
    also have "\<dots> = [user_left w sid r]"
      using d that by (simp only: filter_eq_distinct list.map)
    finally show ?thesis .
  qed
  show ?thesis
  proof (intro conjI ballI impI)
    show "fst (on_disconnecting roster w sid) = Normal"
      using all by simp
  next
    fix r assume "r \<in> set (elems (socket_rooms w sid))" and "r \<noteq> Str sid"
    then have r: "r \<in> set ?rs" by simp
    with all show "Str sid \<notin> set (getUsersInRoom (rooms ?w') (toPropertyKey r))"
      by blast
    from per_room [OF r] show "filter (\<lambda>e. em_event e = ''user-left'' \<and> em_room e = r)
              (emitted w ?w') =
         [\<lparr>em_event = ''user-left'', em_room = r, em_except = Some sid,
           em_body = PValue (Str sid),
           em_to = filter (\<lambda>m. Str sid \<notin> set (elems (socket_rooms w m))) (in_room w r)\<rparr>]"
      by (simp add: em user_left_def)
  next
    fix r
    assume "Str sid \<in> set (elems (socket_rooms w sid))"
    then show "sid \<notin> set (filter (\<lambda>m. Str sid \<notin> set (elems (socket_rooms w m))) (in_room w r))"
      by (rule socket_to_not_back)
  next
    fix r
    assume "private_room w sid"
    then show "set (filter (\<lambda>m. Str sid \<notin> set (elems (socket_rooms w m))) (in_room w r)) =
          set (in_room w r) - {sid}"
      by (rule socket_to_private)
  qed
qed

theorem disconnecting_leaves_rooms_witness:
  "Str ''s1'' \<notin> set (getUsersInRoom (rooms (snd (on_disconnecting True two_rooms_world ''s1''))) ''jam1'') \<and>
   Str ''s1'' \<notin> set (getUsersInRoom (rooms (snd (on_disconnecting True two_rooms_world ''s1''))) ''jam2'') \<and>
   filter (\<lambda>e. em_event e = ''user-left'' \<and> em_room e = Str ''jam1'')
          (emitted two_rooms_world (snd (on_disconnecting True two_rooms_world ''s1''))) =
     [\<lparr>em_event = ''user-left'', em_room = Str ''jam1'', em_except = Some ''s1'',
       em_body = PValue (Str ''s1''), em_to = [''s2'']\<rparr>] \<and>
   filter (\<lambda>e. em_event e = ''user-left'' \<and> em_room e = Str ''jam1'')
          (emitted two_rooms_world (snd (on_disconnecting False two_rooms_world ''s1''))) =
     [\<lparr>em_event = ''user-left'', em_room = Str ''jam1'', em_except = Some ''s1'',
       em_body = PValue (Str ''s1''), em_to = [''s2'']\<rparr>]"
proof -
  have h: "\<forall>r \<in> set (elems (socket_rooms two_rooms_world ''s1'')).
             r \<noteq> Str ''s1'' \<longrightarrow>
             Str ''s1'' \<in> set (getUsersInRoom (rooms two_rooms_world) (toPropertyKey r))"
    by (simp add: two_rooms_world_shape)
  note t = disconnecting_leaves_rooms [OF h, THEN conjunct2, rule_format]
  have 1: "Str ''jam1'' \<in> set (elems (socket_rooms two_rooms_world ''s1''))"
    and 2: "Str ''jam2'' \<in> set (elems (socket_rooms two_rooms_world ''s1''))"
    by (simp_all add: two_rooms_world_shape)
  from t [OF 1, of True] t [OF 2, of True] t [OF 1, of False] show ?thesis
    by (simp add: two_rooms_world_shape in_room_def)
qed

subsection \<open>Signaling\<close>

lemma on_signaling_emits:
  "on_signaling kind w sid (Some ob) =
     (Normal, socket_to_emit w sid (get_field ob ''roomId'') (listens_on kind) (PObject ob))"
  by (cases kind) simp_all

lemma on_signaling_no_payload: "on_signaling kind w sid None = (Throw TypeError, w)"
  by (cases kind) simp_all

text \<open>
  C7, as stated, fails: the payload does not reach every member of the room other than
  the sender. \<open>socket.to\<close> leaves out the sockets that have joined the room named by
  the sender's identifier. \<open>s1\<close>, \<open>s2\<close> and \<open>s3\<close> are in \<open>jam1\<close>, listed by the registry
  and subscribed in the transport, and \<open>s2\<close> has also joined the room named \<open>s1\<close>; the
  offer of \<open>s1\<close> to \<open>jam1\<close> is delivered to \<open>s3\<close> only.
\<close>

theorem signaling_misses_member:
  "in_room crossed_world (Str ''jam1'') = [''s1'', ''s2'', ''s3''] \<and>
   getUsersInRoom (rooms crossed_world) ''jam1'' = [Str ''s1'', Str ''s2'', Str ''s3''] \<and>
   on_signaling Offer crossed_world ''s1'' (Some [(''roomId'', Str ''jam1''), (''sdp'', Str ''v=0'')]) =
     (Normal, crossed_world\<lparr>sent := sent crossed_world @
        [\<lparr>em_event = ''offer'', em_room = Str ''jam1'', em_except = Some ''s1'',
          em_body = PObject [(''roomId'', Str ''jam1''), (''sdp'', Str ''v=0'')],
          em_to = [''s3'']\<rparr>]\<rparr>)"
  by (simp add: in_room_crossed crossed_world_shape socket_to_emit_def get_field_def)

text \<open>
  C7, amended: a signaling event of kind offer, answer or ice-candidate, sent by session
  \<open>sid\<close> with a payload whose room is \<open>R\<close>, is emitted once under the name it arrived
  under, with the payload unchanged, to the subscribers of \<open>R\<close> that are not subscribed
  to the room named by \<open>sid\<close>. The sender, subscribed to that room, never receives it;
  when that room is private, the payload reaches exactly the subscribers of \<open>R\<close> other
  than \<open>sid\<close>. The registry is unchanged.
\<close>

theorem signaling_forwarded_to_others:
  assumes "get_field ob ''roomId'' = R"
  shows "on_signaling kind w sid (Some ob) =
           (Normal, w\<lparr>sent := sent w @
              [\<lparr>em_event = listens_on kind, em_room = R, em_except = Some sid,
                em_body = PObject ob,
                em_to = filter (\<lambda>m. Str sid \<notin> set (elems (socket_rooms w m))) (in_room w R)\<rparr>]\<rparr>) \<and>
         (Str sid \<in> set (elems (socket_rooms w sid)) \<longrightarrow>
            sid \<notin> set (filter (\<lambda>m. Str sid \<notin> set (elems (socket_rooms w m))) (in_room w R))) \<and>
         (private_room w sid \<longrightarrow>
            set (filter (\<lambda>m. Str sid \<notin> set (elems (socket_rooms w m))) (in_room w R)) =
            set (in_room w R) - {sid}) \<and>
         rooms (snd (on_signaling kind w sid (Some ob))) = rooms w"
  using assms socket_to_private [of w sid R]
  by (simp add: on_signaling_emits socket_to_emit_def)

theorem signaling_forwarded_to_others_witness:
  "on_signaling Offer jam1_world ''s1'' (Some [(''roomId'', Str ''jam1''), (''sdp'', Str ''v=0'')]) =
     (Normal, jam1_world\<lparr>sent := sent jam1_world @
        [\<lparr>em_event = ''offer'', em_room = Str ''jam1'', em_except = Some ''s1'',
          em_body = PObject [(''roomId'', Str ''jam1''), (''sdp'', Str ''v=0'')],
          em_to = [''s2'', ''s3'']\<rparr>]\<rparr>) \<and>
   on_signaling IceCandidate jam1_world ''s2'' (Some [(''roomId'', Str ''jam1'')]) =
     (Normal, jam1_world\<lparr>sent := sent jam1_world @
        [\<lparr>em_event = ''ice-candidate'', em_room = Str ''jam1'', em_except = Some ''s2'',
          em_body = PObject [(''roomId'', Str ''jam1'')],
          em_to = [''s1'', ''s3'']\<rparr>]\<rparr>) \<and>
   private_room jam1_world ''s1'' \<and>
   set [''s2'', ''s3''] = set (in_room jam1_world (Str ''jam1'')) - {''s1''}"
  using signaling_forwarded_to_others
    [of "[(''roomId'', Str ''jam1''), (''sdp'', Str ''v=0'')]" "Str ''jam1''" Offer jam1_world "''s1''"]
    signaling_forwarded_to_others
    [of "[(''roomId'', Str ''jam1'')]" "Str ''jam1''" IceCandidate jam1_world "''s2''"]
  by (simp add: get_field_def in_room_jam1 jam1_world_shape private_room_jam1)

text \<open>
  C9, as stated, fails: a signaling event without a room identifier is not always a
  silent no-op. When the event comes without any payload, reading \<open>data.roomId\<close>
  throws a \<open>TypeError\<close> out of the handler. When the payload is there and only its
  \<open>roomId\<close> is missing, the event is forwarded to the transport room named
  \<open>undefined\<close>, to which socket \<open>s2\<close> is subscribed because it sent \<open>join-room\<close>
  without a room identifier; \<open>s2\<close> receives the offer of \<open>s1\<close>.
\<close>

theorem signaling_without_room_not_silent:
  "on_signaling Offer lobby_world ''s1'' None = (Throw TypeError, lobby_world) \<and>
   on_signaling Offer lobby_world ''s1'' (Some [(''sdp'', Str ''v=0'')]) =
     (Normal, lobby_world\<lparr>sent := sent lobby_world @
        [\<lparr>em_event = ''offer'', em_room = Undefined, em_except = Some ''s1'',
          em_body = PObject [(''sdp'', Str ''v=0'')], em_to = [''s2'']\<rparr>]\<rparr>)"
  by (simp add: socket_to_emit_def get_field_def in_room_lobby lobby_world_shape)

text \<open>
  C9, amended: for every signaling event whose payload is an object without
  \<open>roomId\<close>, the handler returns, leaves the registry unchanged, and emits the payload
  once to the transport room named \<open>undefined\<close>; it is delivered to the subscribers of
  that room (the sessions that have joined without a room identifier) that are not
  subscribed to the room named by the sender's identifier, and to nobody when that room
  has no subscriber. A signaling event without any payload makes the handler throw a
  \<open>TypeError\<close> and leaves the world as it was.
\<close>

theorem signaling_without_room:
  assumes "get_field ob ''roomId'' = Undefined"
  shows "on_signaling kind w sid (Some ob) =
           (Normal, w\<lparr>sent := sent w @
              [\<lparr>em_event = listens_on kind, em_room = Undefined, em_except = Some sid,
                em_body = PObject ob,
                em_to = filter (\<lambda>m. Str sid \<notin> set (elems (socket_rooms w m)))
                          (in_room w Undefined)\<rparr>]\<rparr>) \<and>
         rooms (snd (on_signaling kind w sid (Some ob))) = rooms w \<and>
         (in_room w Undefined = [] \<longrightarrow>
            (\<forall>e \<in> set (emitted w (snd (on_signaling kind w sid (Some ob)))). em_to e = [])) \<and>
         on_signaling kind w sid None = (Throw TypeError, w)"
  using assms
  by (simp add: on_signaling_emits on_signaling_no_payload socket_to_emit_def emitted_def)

theorem signaling_without_room_witness:
  "on_signaling Answer jam1_world ''s1'' (Some [(''sdp'', Str ''v=0'')]) =
     (Normal, jam1_world\<lparr>sent := sent jam1_world @
        [\<lparr>em_event = ''answer'', em_room = Undefined, em_except = Some ''s1'',
          em_body = PObject [(''sdp'', Str ''v=0'')], em_to = []\<rparr>]\<rparr>)"
proof -
  have "in_room jam1_world Undefined = []"
    by (simp add: in_room_def jam1_world_shape)
  with signaling_without_room [of "[(''sdp'', Str ''v=0'')]" Answer jam1_world "''s1''"]
  show ?thesis by (simp add: get_field_def)
qed

subsection \<open>Chat\<close>

text \<open>
  C8, as stated, fails: a sender that is supplied but empty is replaced;
  \<open>sender || 'Anonymous'\<close> falls back for every falsy sender. The chat event has the
  sender \<open>''\<close> and is broadcast with the sender field \<open>Anonymous\<close>.
\<close>

theorem chat_empty_sender_is_anonymous:
  "on_chat_message jam1_world noon
     (Some [(''roomId'', Str ''jam1''), (''message'', Str ''hi''), (''sender'', Str '''')]) =
     (Normal, jam1_world\<lparr>sent := sent jam1_world @
        [\<lparr>em_event = ''chat-message'', em_room = Str ''jam1'', em_except = None,
          em_body = PObject [(''sender'', Str ''Anonymous''), (''message'', Str ''hi''),
                             (''timestamp'', Str (toISOString noon))],
          em_to = [''s1'', ''s2'', ''s3'']\<rparr>]\<rparr>)"
  by (simp add: on_chat_message_def io_in_emit_def get_field_def js_or_def in_room_jam1)

text \<open>
  C8, amended: a chat event with room \<open>R\<close>, message \<open>m\<close> and sender \<open>s\<close> is emitted
  once as \<open>chat-message\<close> to every subscriber of \<open>R\<close>, nobody excluded (so the sending
  session receives it when it is in \<open>R\<close>), with the sender field \<open>s\<close> when \<open>s\<close> is a
  non-empty string and \<open>Anonymous\<close> when it is absent or empty, the message \<open>m\<close>, and
  a timestamp that is the server clock's reading in ISO format, not empty and not taken
  from the payload; the registry is unchanged.
\<close>

theorem chat_echoed_to_room:
  assumes "get_field ob ''roomId'' = R" and "get_field ob ''message'' = m"
    and "get_field ob ''sender'' = s"
  shows "on_chat_message w now (Some ob) =
           (Normal, w\<lparr>sent := sent w @
              [\<lparr>em_event = ''chat-message'', em_room = R, em_except = None,
                em_body = PObject [(''sender'', if s = Undefined \<or> s = Str '''' then Str ''Anonymous'' else s),
                                   (''message'', m),
                                   (''timestamp'', Str (toISOString now))],
                em_to = in_room w R\<rparr>]\<rparr>) \<and>
         toISOString now \<noteq> '''' \<and>
         rooms (snd (on_chat_message w now (Some ob))) = rooms w"
proof -
  have "js_or s (Str ''Anonymous'') = (if s = Undefined \<or> s = Str '''' then Str ''Anonymous'' else s)"
    by (cases s) (simp_all add: js_or_def)
  with assms show ?thesis
    by (simp add: on_chat_message_def io_in_emit_def toISOString_nonempty)
qed

theorem chat_echoed_to_room_witness:
  "on_chat_message jam1_world noon
     (Some [(''roomId'', Str ''jam1''), (''message'', Str ''hi''), (''sender'', Str ''alice'')]) =
     (Normal, jam1_world\<lparr>sent := sent jam1_world @
        [\<lparr>em_event = ''chat-message'', em_room = Str ''jam1'', em_except = None,
          em_body = PObject [(''sender'', Str ''alice''), (''message'', Str ''hi''),
                             (''timestamp'', Str ''2024-05-17T12:00:00.000Z'')],
          em_to = [''s1'', ''s2'', ''s3'']\<rparr>]\<rparr>)"
  using chat_echoed_to_room
    [of "[(''roomId'', Str ''jam1''), (''message'', Str ''hi''), (''sender'', Str ''alice'')]"
        "Str ''jam1''" "Str ''hi''" "Str ''alice''" jam1_world noon]
  by (simp add: get_field_def in_room_jam1 toISOString_def noon_def pad_def digit_def upt_rec)

end
